theory Spec2Isabelle
  imports Main "HOL-Library.Multiset"
begin

section \<open>The memory store of \<open>memory_handler.py\<close>\<close>

text \<open>
  The script keeps one SQLite table,
  \<^verbatim>\<open>memories(id INTEGER PRIMARY KEY AUTOINCREMENT, tags TEXT, content TEXT NOT NULL,
  timestamp DATETIME DEFAULT CURRENT_TIMESTAMP)\<close>,
  and runs one SQL statement per function. The embedding gives each statement the meaning
  the engine documents for it:
  \<^item> a row is a record; \<open>tags\<close> and \<open>content\<close> are \<open>string option\<close>, \<open>None\<close> being SQL
    \<open>NULL\<close> (Python \<open>None\<close> bound as a parameter);
  \<^item> \<open>timestamp\<close> is a \<open>nat\<close>, the reading of the clock in seconds when the row was
    inserted: \<open>CURRENT_TIMESTAMP\<close> is the text \<open>YYYY-MM-DD HH:MM:SS\<close>, whose text order is
    the order of these readings;
  \<^item> the table is the list of its rows in rowid order, together with the counter that
    \<open>AUTOINCREMENT\<close> keeps in \<open>sqlite_sequence\<close>;
  \<^item> the database file is \<open>table option\<close>: \<open>None\<close> before \<open>init_db\<close> has created the table;
  \<^item> an exception is a value \<open>Inl e\<close>; a function that returns gives \<open>Inr\<close> of the new
    database and the texts it wrote to standard output, in order;
  \<^item> the clock and the line read by \<open>input\<close> are arguments.
  A \<open>string\<close> holds one \<open>char\<close> per character; the emoji that open the printed messages do
  not fit in a \<open>char\<close> and are spelled as their UTF-8 bytes. Failures of the storage
  itself (the file cannot be opened or written, the engine's size limits, the 64-bit range
  of an SQLite \<open>INTEGER\<close>) are outside the model: ids are \<open>int\<close>.
\<close>

subsection \<open>Data\<close>

record memory =
  mem_id :: int
  tags :: "string option"
  content :: "string option"
  timestamp :: nat

record table =
  rows :: "memory list"
  seq :: int

type_synonym db = "table option"

datatype error = OperationalError | IntegrityError | AttributeError | EOFError

type_synonym outcome = "error + db \<times> string list"

subsection \<open>Text helpers: \<open>str.lower\<close>, \<open>str.upper\<close>, formatting\<close>

definition lower_char :: "char \<Rightarrow> char" where
  "lower_char c =
     (case map_of (zip ''ABCDEFGHIJKLMNOPQRSTUVWXYZ'' ''abcdefghijklmnopqrstuvwxyz'') c of
        Some l \<Rightarrow> l | None \<Rightarrow> c)"

definition upper_char :: "char \<Rightarrow> char" where
  "upper_char c =
     (case map_of (zip ''abcdefghijklmnopqrstuvwxyz'' ''ABCDEFGHIJKLMNOPQRSTUVWXYZ'') c of
        Some u \<Rightarrow> u | None \<Rightarrow> c)"

definition lower :: "string \<Rightarrow> string" where
  "lower s = map lower_char s"

definition upper :: "string \<Rightarrow> string" where
  "upper s = map upper_char s"

fun digits :: "nat \<Rightarrow> string" where
  "digits n =
     (if n < 10 then [char_of (48 + n)]
      else digits (n div 10) @ [char_of (48 + n mod 10)])"

declare digits.simps [simp del]

definition str_int :: "int \<Rightarrow> string" where
  "str_int i = (if i < 0 then CHR ''-'' # digits (nat (- i)) else digits (nat i))"

definition str_opt :: "string option \<Rightarrow> string" where
  "str_opt x = (case x of None \<Rightarrow> ''None'' | Some s \<Rightarrow> s)"

subsection \<open>The SQL \<open>LIKE\<close> operator\<close>

text \<open>
  \<open>like p s\<close> is \<open>s LIKE p\<close> without an \<open>ESCAPE\<close> clause: \<open>%\<close> in the pattern stands for any
  run of characters, \<open>_\<close> for any one character, and every other character for itself,
  upper and lower case ASCII letters being equal (the engine's default; the script sets no
  \<open>case_sensitive_like\<close> pragma).
\<close>

function like :: "string \<Rightarrow> string \<Rightarrow> bool" where
  "like [] s = (s = [])"
| "like (p # ps) [] = (p = CHR ''%'' \<and> like ps [])"
| "like (p # ps) (c # s) =
     (if p = CHR ''%'' then like ps (c # s) \<or> like (p # ps) s
      else (p = CHR ''_'' \<or> lower_char p = lower_char c) \<and> like ps s)"
  by pat_completeness auto
termination
  by (relation "measure (\<lambda>(p, s). length p + length s)") auto

text \<open>A \<open>NULL\<close> operand makes \<open>LIKE\<close> \<open>NULL\<close>, which selects no row.\<close>

definition sql_like :: "string option \<Rightarrow> string \<Rightarrow> bool" where
  "sql_like x p = (case x of None \<Rightarrow> False | Some s \<Rightarrow> like p s)"




subsection \<open>\<open>init_db\<close>\<close>

definition empty_table :: table where
  "empty_table = \<lparr>rows = [], seq = 0\<rparr>"

definition init_db :: "db \<Rightarrow> outcome" where
  "init_db d =
     (case d of None \<Rightarrow> Inr (Some empty_table, []) | Some t \<Rightarrow> Inr (Some t, []))"

subsection \<open>\<open>save_memory\<close>\<close>

text \<open>
  \<open>AUTOINCREMENT\<close>: the new rowid is one more than the larger of the largest rowid in the
  table and the largest rowid ever given out, which \<open>sqlite_sequence\<close> records.
\<close>

fun max_rowid :: "memory list \<Rightarrow> int" where
  "max_rowid [] = 0"
| "max_rowid (r # rs) = max (mem_id r) (max_rowid rs)"

definition next_rowid :: "table \<Rightarrow> int" where
  "next_rowid t = max (seq t) (max_rowid (rows t)) + 1"

definition insert_memory :: "string option \<Rightarrow> string option \<Rightarrow> nat \<Rightarrow> table \<Rightarrow> error + table" where
  "insert_memory tg text now t =
     (case text of
        None \<Rightarrow> Inl IntegrityError
      | Some c \<Rightarrow>
          Inr \<lparr>rows = rows t @
                 [\<lparr>mem_id = next_rowid t, tags = tg, content = Some c, timestamp = now\<rparr>],
               seq = next_rowid t\<rparr>)"

definition saved_msg :: "string option \<Rightarrow> string" where
  "saved_msg tg =
     [CHR 0xE2, CHR 0x9C, CHR 0x85] @ '' Memory saved under tags: '' @ str_opt tg"

definition save_memory :: "string option \<Rightarrow> string option \<Rightarrow> nat \<Rightarrow> db \<Rightarrow> outcome" where
  "save_memory text tg now d =
     (case d of
        None \<Rightarrow> Inl OperationalError
      | Some t \<Rightarrow>
          (case insert_memory tg text now t of
             Inl e \<Rightarrow> Inl e
           | Inr t' \<Rightarrow> Inr (Some t', [saved_msg tg])))"

subsection \<open>\<open>search_memories\<close>\<close>

definition pattern :: "string \<Rightarrow> string" where
  "pattern query = ''%'' @ query @ ''%''"

definition where_clause :: "string \<Rightarrow> memory \<Rightarrow> bool" where
  "where_clause query r =
     (sql_like (tags r) (pattern query) \<or> sql_like (content r) (pattern query))"

text \<open>
  \<open>ORDER BY timestamp DESC LIMIT 5\<close> over the rows that pass the \<open>WHERE\<close> clause. SQL leaves
  the order of rows with equal timestamps open; the model keeps them in rowid order, the
  order of the scan.
\<close>

definition select_memories :: "string \<Rightarrow> memory list \<Rightarrow> memory list" where
  "select_memories query rs =
     take 5 (sort_key (\<lambda>r. - int (timestamp r)) (filter (where_clause query) rs))"

definition fetchall :: "string \<Rightarrow> table \<Rightarrow> (int \<times> string option \<times> string option) list" where
  "fetchall query t =
     map (\<lambda>r. (mem_id r, tags r, content r)) (select_memories query (rows t))"

fun result_line :: "int \<times> string option \<times> string option \<Rightarrow> error + string" where
  "result_line (i, None, c) = Inl AttributeError"
| "result_line (i, Some tg, c) =
     Inr (''ID: '' @ str_int i @ '' | ['' @ upper tg @ '']: '' @ str_opt c)"

fun result_lines :: "(int \<times> string option \<times> string option) list \<Rightarrow> error + string list" where
  "result_lines [] = Inr []"
| "result_lines (x # xs) =
     (case result_line x of
        Inl e \<Rightarrow> Inl e
      | Inr l \<Rightarrow> (case result_lines xs of Inl e \<Rightarrow> Inl e | Inr ls \<Rightarrow> Inr (l # ls)))"

definition header_msg :: "string \<Rightarrow> string" where
  "header_msg query = [CHR 0x0A] @ ''--- Relevant Memories for '' @ [CHR 0x27] @ query @ [CHR 0x27] @ '' ---''"

definition no_results_msg :: "string \<Rightarrow> string" where
  "no_results_msg query =
     [CHR 0xE2, CHR 0x84, CHR 0xB9, CHR 0xEF, CHR 0xB8, CHR 0x8F] @
     '' No relevant knowledge found for '' @ [CHR 0x27] @ query @ [CHR 0x27] @ ''.''"

definition search_memories :: "string \<Rightarrow> db \<Rightarrow> outcome" where
  "search_memories query d =
     (case d of
        None \<Rightarrow> Inl OperationalError
      | Some t \<Rightarrow>
          (let results = fetchall query t in
           if results \<noteq> [] then
             (case result_lines results of
                Inl e \<Rightarrow> Inl e
              | Inr ls \<Rightarrow> Inr (Some t, header_msg query # ls))
           else Inr (Some t, [no_results_msg query])))"

subsection \<open>\<open>delete_memory\<close>\<close>

definition deleted_msg :: "int \<Rightarrow> string" where
  "deleted_msg i =
     [CHR 0xF0, CHR 0x9F, CHR 0x97, CHR 0x91, CHR 0xEF, CHR 0xB8, CHR 0x8F] @
     '' Memory ID '' @ str_int i @ '' deleted.''"

definition delete_memory :: "int \<Rightarrow> db \<Rightarrow> outcome" where
  "delete_memory i d =
     (case d of
        None \<Rightarrow> Inl OperationalError
      | Some t \<Rightarrow>
          Inr (Some (t\<lparr>rows := filter (\<lambda>r. mem_id r \<noteq> i) (rows t)\<rparr>), [deleted_msg i]))"

subsection \<open>\<open>wipe_all\<close>\<close>

definition prompt_msg :: string where
  "prompt_msg = ''Are you sure you want to wipe ALL memories? (y/n): ''"

definition wiped_msg :: string where
  "wiped_msg = [CHR 0xF0, CHR 0x9F, CHR 0x92, CHR 0xA5] @ '' All memories wiped.''"

text \<open>\<open>reply\<close> is the line \<open>input\<close> returns; \<open>None\<close> is end of input, where it raises.\<close>

definition wipe_all :: "string option \<Rightarrow> db \<Rightarrow> outcome" where
  "wipe_all reply d =
     (case reply of
        None \<Rightarrow> Inl EOFError
      | Some confirm \<Rightarrow>
          if lower confirm = ''y'' then
            (case d of
               None \<Rightarrow> Inl OperationalError
             | Some t \<Rightarrow> Inr (Some (t\<lparr>rows := []\<rparr>), [prompt_msg, wiped_msg]))
          else Inr (d, [prompt_msg]))"

subsection \<open>The command line\<close>

record args =
  arg_save :: "string option"
  arg_tags :: "string option"
  arg_search :: "string option"
  arg_delete :: "int option"
  arg_wipe :: bool

text \<open>
  Python's truth test as the \<open>if\<close>/\<open>elif\<close> chain applies it: an option that was not
  given is \<open>None\<close>, and \<open>None\<close>, the empty string and \<open>0\<close> are all false. Each helper returns
  the value when it is true.
\<close>

definition truthy_str :: "string option \<Rightarrow> string option" where
  "truthy_str x = (case x of None \<Rightarrow> None | Some s \<Rightarrow> if s = [] then None else Some s)"

definition truthy_int :: "int option \<Rightarrow> int option" where
  "truthy_int x = (case x of None \<Rightarrow> None | Some i \<Rightarrow> if i = 0 then None else Some i)"

definition or_default :: "string option \<Rightarrow> string \<Rightarrow> string" where
  "or_default x dflt = (case truthy_str x of None \<Rightarrow> dflt | Some s \<Rightarrow> s)"

definition main :: "args \<Rightarrow> nat \<Rightarrow> string option \<Rightarrow> db \<Rightarrow> outcome" where
  "main a now reply d =
     (case init_db d of
        Inl e \<Rightarrow> Inl e
      | Inr (d1, _) \<Rightarrow>
          (case truthy_str (arg_save a) of
             Some text \<Rightarrow> save_memory (Some text) (Some (or_default (arg_tags a) ''general'')) now d1
           | None \<Rightarrow>
               (case truthy_str (arg_search a) of
                  Some query \<Rightarrow> search_memories query d1
                | None \<Rightarrow>
                    (case truthy_int (arg_delete a) of
                       Some i \<Rightarrow> delete_memory i d1
                     | None \<Rightarrow> if arg_wipe a then wipe_all reply d1 else Inr (d1, [])))))"

subsection \<open>Notions the properties use\<close>

text \<open>The table \<open>init_db\<close> leaves behind: the one that was there, or a new empty one.\<close>

definition table_of :: "db \<Rightarrow> table" where
  "table_of d = (case d of None \<Rightarrow> empty_table | Some t \<Rightarrow> t)"

text \<open>
  The invariants of the table: ids increase along the rows (so no two rows share one), no
  id exceeds the counter of \<open>sqlite_sequence\<close>, and no content is \<open>NULL\<close>.
\<close>

definition invariant :: "table \<Rightarrow> bool" where
  "invariant t =
     (sorted_wrt (<) (map mem_id (rows t)) \<and>
      (\<forall>r \<in> set (rows t). mem_id r \<le> seq t \<and> content r \<noteq> None))"

definition db_inv :: "db \<Rightarrow> bool" where
  "db_inv d = (case d of None \<Rightarrow> True | Some t \<Rightarrow> invariant t)"

text \<open>
  \<open>keeps d res\<close>: when the operation returned, the database it left satisfies the
  invariants, the counter has not gone down, and every row is either a row that was there
  before, with its id and fields as they were, or a row whose id is above every id given
  out before.
\<close>

definition keeps :: "db \<Rightarrow> outcome \<Rightarrow> bool" where
  "keeps d res =
     (case res of
        Inl e \<Rightarrow> True
      | Inr (d', out) \<Rightarrow>
          db_inv d' \<and> seq (table_of d) \<le> seq (table_of d') \<and>
          (\<forall>r \<in> set (rows (table_of d')).
             r \<in> set (rows (table_of d)) \<or> seq (table_of d) < mem_id r))"

subsection \<open>Example tables\<close>

definition bug_note :: memory where
  "bug_note =
     \<lparr>mem_id = 1, tags = Some ''bugs'', content = Some ''fix login bug'', timestamp = 1000\<rparr>"

definition one_note :: table where
  "one_note = \<lparr>rows = [bug_note], seq = 1\<rparr>"

definition login_note :: "int \<Rightarrow> nat \<Rightarrow> memory" where
  "login_note i ts =
     \<lparr>mem_id = i, tags = Some ''general'', content = Some ''login note'', timestamp = ts\<rparr>"

definition five_notes :: table where
  "five_notes =
     \<lparr>rows = [login_note 1 1000, login_note 2 1001, login_note 3 1002, login_note 4 1003,
              login_note 5 1004],
      seq = 5\<rparr>"


section \<open>Properties\<close>

subsection \<open>Initialisation\<close>

lemma init_db_table_of: "init_db d = Inr (Some (table_of d), [])"
  by (cases d) (simp_all add: init_db_def table_of_def)

text \<open>
  C7. \<open>init_db\<close> is idempotent: on a database whose table exists it raises nothing and
  returns the database as it was, prints nothing, and running it a second time on its own
  result gives that result again, whatever the database was.
\<close>

theorem init_db_idempotent:
  "init_db (Some t) = Inr (Some t, []) \<and>
   (\<exists>d'. init_db d = Inr (d', []) \<and> init_db d' = Inr (d', []))"
  by (cases d) (simp_all add: init_db_def)

subsection \<open>What \<open>LIKE\<close> matches\<close>










subsection \<open>What the \<open>SELECT\<close> returns\<close>










subsection \<open>Saving, then searching\<close>

lemma mem_id_le_max_rowid: "r \<in> set rs \<Longrightarrow> mem_id r \<le> max_rowid rs"
  by (induction rs) auto

lemma next_rowid_fresh: "r \<in> set (rows t) \<Longrightarrow> mem_id r < next_rowid t"
  using mem_id_le_max_rowid [of r "rows t"] by (simp add: next_rowid_def)







subsection \<open>The confirmation of \<open>wipe_all\<close>\<close>

lemma lower_char_eq_y: "lower_char c = CHR ''y'' \<longleftrightarrow> c = CHR ''y'' \<or> c = CHR ''Y''"
  by (auto simp: lower_char_def split: if_splits)

lemma lower_eq_y: "lower s = ''y'' \<longleftrightarrow> s = ''y'' \<or> s = ''Y''"
  by (cases s) (auto simp: lower_def lower_char_eq_y)

text \<open>
  C4. \<open>wipe_all\<close> deletes only after an affirmative reply to its prompt: on the reply \<open>y\<close>
  or \<open>Y\<close> it removes every row of the table; on any other reply it returns the database
  as it was, having printed the prompt only, and raises nothing.
\<close>

theorem wipe_all_confirmation:
  "wipe_all (Some ''y'') (Some t) = Inr (Some (t\<lparr>rows := []\<rparr>), [prompt_msg, wiped_msg]) \<and>
   wipe_all (Some ''Y'') (Some t) = Inr (Some (t\<lparr>rows := []\<rparr>), [prompt_msg, wiped_msg]) \<and>
   (confirm \<noteq> ''y'' \<and> confirm \<noteq> ''Y'' \<longrightarrow> wipe_all (Some confirm) d = Inr (d, [prompt_msg]))"
  by (simp add: wipe_all_def lower_eq_y)

theorem wipe_all_confirmation_witness:
  "''n'' \<noteq> ''y'' \<and> ''n'' \<noteq> ''Y'' \<and>
   wipe_all (Some ''n'') (Some five_notes) = Inr (Some five_notes, [prompt_msg]) \<and>
   wipe_all (Some ''y'') (Some five_notes) =
     Inr (Some \<lparr>rows = [], seq = 5\<rparr>, [prompt_msg, wiped_msg])"
  using wipe_all_confirmation [of five_notes "''n''" "Some five_notes"]
  by (simp add: five_notes_def)

text \<open>
  C10. For every reply, \<open>wipe_all\<close> runs its \<open>DELETE\<close> exactly when the reply in lower case
  is the one character \<open>y\<close>; the reply \<open>yes\<close> is not, and leaves the table as it was.
\<close>

theorem wipe_all_iff_lower_y:
  "wipe_all (Some confirm) (Some t) =
     (if lower confirm = ''y'' then Inr (Some (t\<lparr>rows := []\<rparr>), [prompt_msg, wiped_msg])
      else Inr (Some t, [prompt_msg])) \<and>
   lower ''yes'' \<noteq> ''y'' \<and>
   wipe_all (Some ''yes'') (Some t) = Inr (Some t, [prompt_msg])"
  by (simp add: wipe_all_def lower_eq_y)

subsection \<open>Deleting by id\<close>




subsection \<open>The command line\<close>

text \<open>
  C6 (amended). For every content string that is not empty, the command line with \<open>--save\<close>
  and no \<open>--tags\<close> appends to the table that \<open>init_db\<close> leaves one record whose tags are
  \<open>general\<close>, whose content is the string, whose timestamp is the clock's reading and
  whose id is above every id in the table and above the counter of ids given out.
\<close>

theorem cli_save_default_tags:
  assumes "text \<noteq> []"
  shows "main \<lparr>arg_save = Some text, arg_tags = None, arg_search = sq, arg_delete = dl,
                arg_wipe = w\<rparr> now reply d =
           Inr (Some \<lparr>rows = rows (table_of d) @
                        [\<lparr>mem_id = next_rowid (table_of d), tags = Some ''general'',
                          content = Some text, timestamp = now\<rparr>],
                      seq = next_rowid (table_of d)\<rparr>,
                [saved_msg (Some ''general'')]) \<and>
         (\<forall>r \<in> set (rows (table_of d)). mem_id r < next_rowid (table_of d)) \<and>
         seq (table_of d) < next_rowid (table_of d)"
proof -
  have "truthy_str (Some text) = Some text" using assms by (simp add: truthy_str_def)
  moreover have "or_default None ''general'' = ''general''"
    by (simp add: or_default_def truthy_str_def)
  ultimately have "main \<lparr>arg_save = Some text, arg_tags = None, arg_search = sq,
      arg_delete = dl, arg_wipe = w\<rparr> now reply d =
      save_memory (Some text) (Some ''general'') now (Some (table_of d))"
    by (simp add: main_def init_db_table_of)
  moreover have "seq (table_of d) < next_rowid (table_of d)" by (simp add: next_rowid_def)
  ultimately show ?thesis
    using next_rowid_fresh [of _ "table_of d"]
    by (simp add: save_memory_def insert_memory_def)
qed

theorem cli_save_default_tags_witness:
  "''hello world'' \<noteq> [] \<and>
   main \<lparr>arg_save = Some ''hello world'', arg_tags = None, arg_search = None, arg_delete = None,
         arg_wipe = False\<rparr> 1000 None None =
     Inr (Some \<lparr>rows = [\<lparr>mem_id = 1, tags = Some ''general'', content = Some ''hello world'',
                          timestamp = 1000\<rparr>], seq = 1\<rparr>,
          [saved_msg (Some ''general'')])"
proof -
  have ne: "''hello world'' \<noteq> []" by simp
  have nxt: "next_rowid (table_of None) = 1" "rows (table_of None) = []"
    by (simp_all add: table_of_def empty_table_def next_rowid_def)
  from cli_save_default_tags [OF ne, of None None False 1000 None None] nxt ne
  show ?thesis by simp
qed

text \<open>
  The claim as written fails for the empty content string: \<open>--save ""\<close> is false in the
  \<open>if\<close> of the command line, no branch runs, and the table stays as it was.
\<close>

theorem cli_save_default_tags_counterexample:
  "main \<lparr>arg_save = Some [], arg_tags = None, arg_search = None, arg_delete = None,
         arg_wipe = False\<rparr> 1000 None (Some one_note) = Inr (Some one_note, [])"
  by (simp add: main_def init_db_def truthy_str_def truthy_int_def)

text \<open>
  C9. \<open>--delete 0\<close> does not reach \<open>delete_memory\<close>: the command line behaves as if
  \<open>--delete\<close> had not been given, and with no other option it returns the table as it is
  (an empty one when there was none) and prints nothing.
\<close>

theorem cli_delete_zero:
  "main (a\<lparr>arg_delete := Some 0\<rparr>) now reply d = main (a\<lparr>arg_delete := None\<rparr>) now reply d \<and>
   main \<lparr>arg_save = None, arg_tags = tg, arg_search = None, arg_delete = Some 0,
         arg_wipe = False\<rparr> now reply (Some t) = Inr (Some t, []) \<and>
   main \<lparr>arg_save = None, arg_tags = tg, arg_search = None, arg_delete = Some 0,
         arg_wipe = False\<rparr> now reply None = Inr (Some empty_table, [])"
proof (intro conjI)
  have "truthy_int (Some 0) = None" "truthy_int None = None"
    by (simp_all add: truthy_int_def)
  then show "main (a\<lparr>arg_delete := Some 0\<rparr>) now reply d =
      main (a\<lparr>arg_delete := None\<rparr>) now reply d"
    by (simp add: main_def init_db_table_of split: option.split)
qed (simp_all add: main_def init_db_def truthy_str_def truthy_int_def)

subsection \<open>Invariants\<close>

lemma table_of_Some: "table_of (Some t) = t"
  by (simp add: table_of_def)

lemma invariant_empty: "invariant empty_table"
  by (simp add: invariant_def empty_table_def)

lemma db_inv_table_of: "db_inv d \<Longrightarrow> invariant (table_of d)"
  by (cases d) (simp_all add: db_inv_def table_of_def invariant_empty)

lemma keeps_same:
  "db_inv d \<Longrightarrow> table_of d' = table_of d \<Longrightarrow> db_inv d' \<Longrightarrow> keeps d (Inr (d', out))"
  by (simp add: keeps_def)

lemma keeps_init: "db_inv d \<Longrightarrow> keeps d (init_db d)"
  using db_inv_table_of [of d]
  by (simp add: init_db_table_of keeps_def db_inv_def table_of_Some)

lemma invariant_insert:
  assumes "invariant t" and "insert_memory tg text now t = Inr t'"
  shows "invariant t' \<and> seq t < seq t' \<and>
         (\<forall>r \<in> set (rows t'). r \<in> set (rows t) \<or> seq t < mem_id r)"
proof -
  from assms(2) obtain c where "text = Some c"
    and t': "t' = \<lparr>rows = rows t @
         [\<lparr>mem_id = next_rowid t, tags = tg, content = Some c, timestamp = now\<rparr>],
       seq = next_rowid t\<rparr>"
    by (auto simp: insert_memory_def split: option.splits)
  have lt: "seq t < next_rowid t" by (simp add: next_rowid_def)
  have fresh: "\<forall>r \<in> set (rows t). mem_id r < next_rowid t"
    using next_rowid_fresh by blast
  have "sorted_wrt (<) (map mem_id (rows t) @ [next_rowid t])"
    using assms(1) fresh by (simp add: invariant_def sorted_wrt_append)
  moreover have "\<forall>r \<in> set (rows t). mem_id r \<le> next_rowid t \<and> content r \<noteq> None"
    using assms(1) fresh by (fastforce simp: invariant_def)
  ultimately have "invariant t'" by (simp add: invariant_def t')
  then show ?thesis using lt by (auto simp: t')
qed

lemma keeps_save: "db_inv d \<Longrightarrow> keeps d (save_memory text tg now d)"
proof (cases d)
  case None
  then show ?thesis by (simp add: save_memory_def keeps_def)
next
  case (Some t)
  assume "db_inv d"
  then have inv: "invariant t" using Some by (simp add: db_inv_def)
  show ?thesis
  proof (cases "insert_memory tg text now t")
    case (Inl e)
    then show ?thesis using Some by (simp add: save_memory_def keeps_def)
  next
    case (Inr t')
    from invariant_insert [OF inv Inr] show ?thesis
      using Some Inr by (simp add: save_memory_def keeps_def db_inv_def table_of_def)
  qed
qed

lemma keeps_search: "db_inv d \<Longrightarrow> keeps d (search_memories q d)"
  by (cases d)
    (auto simp: search_memories_def keeps_def Let_def split: sum.splits)

lemma invariant_filter: "invariant t \<Longrightarrow> invariant (t\<lparr>rows := filter P (rows t)\<rparr>)"
  by (simp add: invariant_def sorted_wrt_filter filter_map [symmetric] sorted_wrt_map)

lemma keeps_delete: "db_inv d \<Longrightarrow> keeps d (delete_memory i d)"
  by (cases d)
    (simp_all add: delete_memory_def keeps_def db_inv_def table_of_def invariant_filter)

lemma keeps_wipe: "db_inv d \<Longrightarrow> keeps d (wipe_all reply d)"
  by (cases d; cases reply)
    (simp_all add: wipe_all_def keeps_def db_inv_def table_of_def invariant_def)

lemma keeps_after_init: "keeps (Some (table_of d)) res \<Longrightarrow> keeps d res"
  by (cases res) (auto simp: keeps_def table_of_Some)

lemma keeps_main:
  assumes "db_inv d"
  shows "keeps d (main a now reply d)"
proof -
  let ?d1 = "Some (table_of d)"
  have inv1: "db_inv ?d1" using assms by (simp add: db_inv_def db_inv_table_of)
  have "keeps ?d1 (main a now reply d)"
    using keeps_save [OF inv1] keeps_search [OF inv1] keeps_delete [OF inv1]
      keeps_wipe [OF inv1] inv1
    by (simp add: main_def init_db_table_of keeps_same split: option.split)
  then show ?thesis by (rule keeps_after_init)
qed

text \<open>
  C8. Every operation keeps the invariants of the data model. From a database that
  satisfies them (ids distinct and increasing along the rows, none above the counter of
  ids given out, no content \<open>NULL\<close>), each of \<open>init_db\<close>, \<open>save_memory\<close>,
  \<open>search_memories\<close>, \<open>delete_memory\<close>, \<open>wipe_all\<close> and the command line, when it returns,
  leaves a database that satisfies them, with a counter no lower than before and with
  every row either an unchanged row of before or a row whose id is strictly above every
  id given out before; and a save with no content raises and stores nothing.
\<close>

theorem operations_keep_invariants:
  assumes "db_inv d"
  shows "keeps d (init_db d) \<and> keeps d (save_memory text tg now d) \<and>
         keeps d (search_memories q d) \<and> keeps d (delete_memory i d) \<and>
         keeps d (wipe_all reply d) \<and> keeps d (main a now reply d) \<and>
         save_memory None tg now (Some t) = Inl IntegrityError"
  using assms keeps_init keeps_save keeps_search keeps_delete keeps_wipe keeps_main
  by (simp add: save_memory_def insert_memory_def)

theorem operations_keep_invariants_witness:
  "db_inv (Some five_notes) \<and>
   keeps (Some five_notes)
     (save_memory (Some ''hello world'') (Some ''general'') 2000 (Some five_notes)) \<and>
   keeps (Some five_notes) (delete_memory 3 (Some five_notes)) \<and>
   keeps (Some five_notes) (wipe_all (Some ''y'') (Some five_notes)) \<and>
   save_memory (Some ''hello world'') (Some ''general'') 2000 (Some five_notes) =
     Inr (Some \<lparr>rows = rows five_notes @
                  [\<lparr>mem_id = 6, tags = Some ''general'', content = Some ''hello world'',
                    timestamp = 2000\<rparr>], seq = 6\<rparr>, [saved_msg (Some ''general'')]) \<and>
   save_memory None (Some ''general'') 2000 (Some five_notes) = Inl IntegrityError"
proof -
  have inv: "db_inv (Some five_notes)"
    by (simp add: db_inv_def invariant_def five_notes_def login_note_def)
  have saved: "save_memory (Some ''hello world'') (Some ''general'') 2000 (Some five_notes) =
     Inr (Some \<lparr>rows = rows five_notes @
                  [\<lparr>mem_id = 6, tags = Some ''general'', content = Some ''hello world'',
                    timestamp = 2000\<rparr>], seq = 6\<rparr>, [saved_msg (Some ''general'')])"
    by (simp add: save_memory_def insert_memory_def next_rowid_def five_notes_def login_note_def)
  from operations_keep_invariants
    [OF inv, of "Some ''hello world''" "Some ''general''" 2000 _ 3 "Some ''y''" _ five_notes]
    inv saved
  show ?thesis by simp
qed

end
